theory Spec2Isabelle
  imports Main "HOL-Library.Sublist"
begin

section \<open>The host: decimal numerals, calendar dates, Date and moment objects\<close>

text \<open>
  \<^verbatim>\<open>QueryBuilder.js\<close> concatenates strings with numbers and arrays and hands dates to
  the host's \<^verbatim>\<open>Date\<close> and to the \<^verbatim>\<open>moment\<close> library. This section models the part
  of the host that the class calls. Numbers are the integer-valued ones that print as
  plain decimal digits (magnitude below \<open>10\<^sup>2\<^sup>1\<close>). The local time zone is a fixed
  offset from UTC, counted in minutes east of Greenwich. Symbols, big integers and
  objects with a conversion of their own are not among the values.
\<close>

fun digits :: "nat \<Rightarrow> string" where
  "digits n =
     (if n < 10 then [''0123456789'' ! n]
      else digits (n div 10) @ [''0123456789'' ! (n mod 10)])"

declare digits.simps [simp del]

definition Number_toString :: "int \<Rightarrow> string" where
  "Number_toString i = (if i < 0 then ''-'' @ digits (nat (- i)) else digits (nat i))"

text \<open>\<^verbatim>\<open>zeroFill\<close>: the decimal digits of \<open>n\<close>, left-padded with zeros to \<open>w\<close> characters.\<close>

definition zeroFill :: "nat \<Rightarrow> nat \<Rightarrow> string" where
  "zeroFill w n = replicate (w - length (digits n)) CHR ''0'' @ digits n"

definition signedFill :: "nat \<Rightarrow> int \<Rightarrow> string" where
  "signedFill w i = (if i < 0 then ''-'' else '''') @ zeroFill w (nat \<bar>i\<bar>)"

text \<open>
  The proleptic Gregorian calendar: the day number of a date, counted from 1970-01-01,
  and back.
\<close>

definition days_from_civil :: "int \<Rightarrow> int \<Rightarrow> int \<Rightarrow> int" where
  "days_from_civil y m d =
     (let y' = (if m \<le> 2 then y - 1 else y);
          era = y' div 400;
          yoe = y' mod 400;
          doy = (153 * (if m > 2 then m - 3 else m + 9) + 2) div 5 + d - 1;
          doe = yoe * 365 + yoe div 4 - yoe div 100 + doy
      in era * 146097 + doe - 719468)"

definition civil_from_days :: "int \<Rightarrow> int \<times> int \<times> int" where
  "civil_from_days z =
     (let z' = z + 719468;
          era = z' div 146097;
          doe = z' mod 146097;
          yoe = (doe - doe div 1460 + doe div 36524 - doe div 146096) div 365;
          doy = doe - (365 * yoe + yoe div 4 - yoe div 100);
          mp = (5 * doy + 2) div 153;
          d = doy - (153 * mp + 2) div 5 + 1;
          m = (if mp < 10 then mp + 3 else mp - 9);
          y = yoe + era * 400
      in (if m \<le> 2 then y + 1 else y, m, d))"

text \<open>
  The broken-down fields of a wall-clock reading given in milliseconds: year, month
  (1 to 12), day of the month, hours (0 to 23), minutes, seconds and the day of the week
  (0 is Sunday).
\<close>

record fields =
  f_year :: int
  f_month :: int
  f_date :: int
  f_hours :: int
  f_minutes :: int
  f_seconds :: int
  f_day :: int

definition fields_of :: "int \<Rightarrow> fields" where
  "fields_of ms =
     (let secs = ms div 1000;
          days = secs div 86400;
          sod = secs mod 86400;
          ymd = civil_from_days days
      in \<lparr>f_year = fst ymd, f_month = fst (snd ymd), f_date = snd (snd ymd),
          f_hours = sod div 3600, f_minutes = sod mod 3600 div 60, f_seconds = sod mod 60,
          f_day = (days + 4) mod 7\<rparr>)"

definition dayNames :: "string list" where
  "dayNames = [''Sun'', ''Mon'', ''Tue'', ''Wed'', ''Thu'', ''Fri'', ''Sat'']"

definition monthNames :: "string list" where
  "monthNames = [''Jan'', ''Feb'', ''Mar'', ''Apr'', ''May'', ''Jun'',
                 ''Jul'', ''Aug'', ''Sep'', ''Oct'', ''Nov'', ''Dec'']"

text \<open>
  A \<^verbatim>\<open>Date\<close> object is its time value, in milliseconds since the epoch (\<open>None\<close> is
  the invalid date, whose time value is NaN), together with the offset of the host's
  local zone. A \<^verbatim>\<open>moment\<close> object is a time value and the offset it displays in:
  the local offset for \<^verbatim>\<open>moment(x)\<close>, zero for \<^verbatim>\<open>moment.utc(x)\<close>.
\<close>

datatype Date = Date (timeValue: "int option") (localOffset: int)

datatype Moment = Moment (instant: "int option") (utcOffset: int)

text \<open>\<^verbatim>\<open>Date.prototype.toUTCString\<close>, as in \<^verbatim>\<open>Tue, 03 Nov 2026 07:27:00 GMT\<close>.\<close>

definition toUTCString :: "Date \<Rightarrow> string" where
  "toUTCString d =
     (case timeValue d of
        None \<Rightarrow> ''Invalid Date''
      | Some t \<Rightarrow>
          (let f = fields_of t
           in dayNames ! nat (f_day f) @ '', '' @ zeroFill 2 (nat (f_date f)) @ '' ''
              @ monthNames ! nat (f_month f - 1) @ '' '' @ signedFill 4 (f_year f) @ '' ''
              @ zeroFill 2 (nat (f_hours f)) @ '':'' @ zeroFill 2 (nat (f_minutes f)) @ '':''
              @ zeroFill 2 (nat (f_seconds f)) @ '' GMT''))"

text \<open>
  The rendering shared by \<^verbatim>\<open>Date.prototype.toString\<close> and \<^verbatim>\<open>moment.prototype.toString\<close>,
  as in \<^verbatim>\<open>Tue Nov 03 2026 09:27:00 GMT+0200\<close>. (A host may append the name of the
  zone in parentheses to the former; the builder reads neither.)
\<close>

definition localString :: "int \<Rightarrow> int \<Rightarrow> string" where
  "localString t off =
     (let f = fields_of (t + off * 60000)
      in dayNames ! nat (f_day f) @ '' '' @ monthNames ! nat (f_month f - 1) @ '' ''
         @ zeroFill 2 (nat (f_date f)) @ '' '' @ signedFill 4 (f_year f) @ '' ''
         @ zeroFill 2 (nat (f_hours f)) @ '':'' @ zeroFill 2 (nat (f_minutes f)) @ '':''
         @ zeroFill 2 (nat (f_seconds f)) @ '' GMT'' @ (if off < 0 then ''-'' else ''+'')
         @ zeroFill 2 (nat (\<bar>off\<bar> div 60)) @ zeroFill 2 (nat (\<bar>off\<bar> mod 60)))"

definition Date_toString :: "Date \<Rightarrow> string" where
  "Date_toString d =
     (case timeValue d of None \<Rightarrow> ''Invalid Date'' | Some t \<Rightarrow> localString t (localOffset d))"

definition Moment_toString :: "Moment \<Rightarrow> string" where
  "Moment_toString m =
     (case instant m of None \<Rightarrow> ''Invalid date'' | Some t \<Rightarrow> localString t (utcOffset m))"

text \<open>
  \<^verbatim>\<open>momentDate.format('YYYY-MM-DD hh:mm:ss')\<close>: the fields of the moment in the offset
  it displays in. The token \<^verbatim>\<open>hh\<close> is the hour of the twelve-hour clock.
\<close>

definition format_YYYY_MM_DD_hh_mm_ss :: "Moment \<Rightarrow> string" where
  "format_YYYY_MM_DD_hh_mm_ss m =
     (case instant m of
        None \<Rightarrow> ''Invalid date''
      | Some t \<Rightarrow>
          (let f = fields_of (t + utcOffset m * 60000);
               h12 = (if f_hours f mod 12 = 0 then 12 else f_hours f mod 12)
           in signedFill 4 (f_year f) @ ''-'' @ zeroFill 2 (nat (f_month f)) @ ''-''
              @ zeroFill 2 (nat (f_date f)) @ '' '' @ zeroFill 2 (nat h12) @ '':''
              @ zeroFill 2 (nat (f_minutes f)) @ '':'' @ zeroFill 2 (nat (f_seconds f))))"

text \<open>
  \<^verbatim>\<open>new Date(string)\<close> on a text of the shape \<^verbatim>\<open>Tue, 03 Nov 2026 07:27:00\<close>. The text
  names no zone, so the host reads it as local time. Any other text gives the invalid
  date. The texts that \<^verbatim>\<open>toUTCString\<close> prints have this shape in their first 25
  characters for the years 1000 to 9999.
\<close>

definition digit_val :: "char \<Rightarrow> nat option" where
  "digit_val c = (if c \<in> set ''0123456789'' then Some (of_char c - 48) else None)"

fun number_of :: "nat \<Rightarrow> string \<Rightarrow> nat option" where
  "number_of acc [] = Some acc"
| "number_of acc (c # cs) =
     (case digit_val c of None \<Rightarrow> None | Some v \<Rightarrow> number_of (acc * 10 + v) cs)"

fun index_of :: "'a \<Rightarrow> 'a list \<Rightarrow> nat option" where
  "index_of x [] = None"
| "index_of x (y # ys) = (if x = y then Some 0 else map_option Suc (index_of x ys))"

definition substr :: "string \<Rightarrow> nat \<Rightarrow> nat \<Rightarrow> string" where
  "substr s start len = take len (drop start s)"

definition new_Date :: "int \<Rightarrow> string \<Rightarrow> Date" where
  "new_Date off s =
     (if length s = 25 \<and> substr s 0 3 \<in> set dayNames \<and> substr s 3 2 = '', ''
         \<and> s ! 7 = CHR '' '' \<and> s ! 11 = CHR '' '' \<and> s ! 16 = CHR '' ''
         \<and> s ! 19 = CHR '':'' \<and> s ! 22 = CHR '':''
      then
        (case (number_of 0 (substr s 5 2), index_of (substr s 8 3) monthNames,
               number_of 0 (substr s 12 4), number_of 0 (substr s 17 2),
               number_of 0 (substr s 20 2), number_of 0 (substr s 23 2)) of
           (Some d, Some mo, Some y, Some h, Some mi, Some se) \<Rightarrow>
             Date (Some ((days_from_civil (int y) (int mo + 1) (int d) * 86400
                          + int h * 3600 + int mi * 60 + int se) * 1000 - off * 60000)) off
         | _ \<Rightarrow> Date None off)
      else Date None off)"

text \<open>\<^verbatim>\<open>moment(date)\<close>: a moment in local mode for the instant of the date.\<close>

definition moment :: "Date \<Rightarrow> Moment" where
  "moment d = Moment (timeValue d) (localOffset d)"

section \<open>Values and their conversion to strings\<close>

datatype jsval =
    JUndefined
  | JNull
  | JBool bool
  | JNum int
  | JStr string
  | JArr "jsval list"
  | JObject
  | JFunction string
  | JDate Date
  | JMoment Moment

fun typeof_js :: "jsval \<Rightarrow> string" where
  "typeof_js JUndefined = ''undefined''"
| "typeof_js JNull = ''object''"
| "typeof_js (JBool b) = ''boolean''"
| "typeof_js (JNum n) = ''number''"
| "typeof_js (JStr s) = ''string''"
| "typeof_js (JArr xs) = ''object''"
| "typeof_js JObject = ''object''"
| "typeof_js (JFunction src) = ''function''"
| "typeof_js (JDate d) = ''object''"
| "typeof_js (JMoment m) = ''object''"

fun isArray :: "jsval \<Rightarrow> bool" where
  "isArray (JArr xs) = True"
| "isArray v = False"

fun instanceof_Date :: "jsval \<Rightarrow> bool" where
  "instanceof_Date (JDate d) = True"
| "instanceof_Date v = False"

fun instanceof_moment :: "jsval \<Rightarrow> bool" where
  "instanceof_moment (JMoment m) = True"
| "instanceof_moment v = False"

text \<open>\<^verbatim>\<open>Array.prototype.join\<close> on strings.\<close>

fun Array_join :: "string \<Rightarrow> string list \<Rightarrow> string" where
  "Array_join sep [] = []"
| "Array_join sep [x] = x"
| "Array_join sep (x # y # ys) = x @ sep @ Array_join sep (y # ys)"

text \<open>
  The string a value turns into under \<^verbatim>\<open>+\<close> with a string and inside a template
  literal. An array is its elements joined by commas, where \<^verbatim>\<open>undefined\<close> and
  \<^verbatim>\<open>null\<close> elements count as empty.
\<close>

fun ToString :: "jsval \<Rightarrow> string" where
  "ToString JUndefined = ''undefined''"
| "ToString JNull = ''null''"
| "ToString (JBool b) = (if b then ''true'' else ''false'')"
| "ToString (JNum n) = Number_toString n"
| "ToString (JStr s) = s"
| "ToString (JArr xs) =
     Array_join '','' (map (\<lambda>v. if v = JUndefined \<or> v = JNull then [] else ToString v) xs)"
| "ToString JObject = ''[object Object]''"
| "ToString (JFunction src) = src"
| "ToString (JDate d) = Date_toString d"
| "ToString (JMoment m) = Moment_toString m"

text \<open>\<^verbatim>\<open>data.join(',')\<close> on an array value.\<close>

definition join_comma :: "jsval list \<Rightarrow> string" where
  "join_comma xs =
     Array_join '','' (map (\<lambda>v. if v = JUndefined \<or> v = JNull then [] else ToString v) xs)"

section \<open>The query builder\<close>

text \<open>
  The class of \<^verbatim>\<open>QueryBuilder.js\<close>. The builder is a record of its two fields. A
  method takes the builder and returns what the call produced, an exception
  (\<open>Inl\<close>) or a value (\<open>Inr\<close>), paired with the builder as the call left it. The
  chainable methods return \<^verbatim>\<open>this\<close>, which is the second component, so their value
  is \<open>()\<close>. Field names are strings, as the documentation of \<^verbatim>\<open>field\<close> says.
\<close>

datatype exn =
    QueryMissingFieldException string
  | QueryTypeException string
  | QueryEmptyException string
  | TypeError string

record QueryBuilder =
  query :: "string list"
  currentField :: string

type_synonym 'a outcome = "(exn + 'a) \<times> QueryBuilder"

definition constructor :: QueryBuilder where
  "constructor = \<lparr>query = [], currentField = ''''\<rparr>"

definition throw :: "exn \<Rightarrow> QueryBuilder \<Rightarrow> 'a outcome" where
  "throw e qb = (Inl e, qb)"

text \<open>\<^verbatim>\<open>this.query.push(token); return this;\<close>\<close>

definition query_push :: "string \<Rightarrow> QueryBuilder \<Rightarrow> unit outcome" where
  "query_push token qb = (Inr (), qb\<lparr>query := query qb @ [token]\<rparr>)"

definition field :: "string \<Rightarrow> QueryBuilder \<Rightarrow> unit outcome" where
  "field fieldName qb = (Inr (), qb\<lparr>currentField := fieldName\<rparr>)"

definition orderDescending :: "QueryBuilder \<Rightarrow> unit outcome" where
  "orderDescending qb = query_push (''ORDERBYDESC'' @ currentField qb) qb"

definition orderAscending :: "QueryBuilder \<Rightarrow> unit outcome" where
  "orderAscending qb = query_push (''ORDERBY'' @ currentField qb) qb"

text \<open>
  \<^verbatim>\<open>_addCondition\<close>. The empty string is the one falsy string. The message is a
  string plus the array \<^verbatim>\<open>types\<close>, which joins the array with commas.
\<close>

definition addCondition :: "string \<Rightarrow> jsval \<Rightarrow> string list \<Rightarrow> QueryBuilder \<Rightarrow> unit outcome" where
  "addCondition operator operand types qb =
     (if currentField qb = '''' then
        throw (QueryMissingFieldException ''Conditions requires a field.'') qb
      else if typeof_js operand \<notin> set types then
        throw (QueryTypeException
          (if length types > 1
           then ''Invalid type passed. Expected one of: '' @ Array_join '','' types
           else ''Invalid type passed. Expected: '' @ Array_join '','' types)) qb
      else query_push (currentField qb @ operator @ ToString operand) qb)"

definition startsWith :: "jsval \<Rightarrow> QueryBuilder \<Rightarrow> unit outcome" where
  "startsWith startsWithStr qb = addCondition ''STARTSWITH'' startsWithStr [''string''] qb"

definition endsWith :: "jsval \<Rightarrow> QueryBuilder \<Rightarrow> unit outcome" where
  "endsWith endsWithStr qb = addCondition ''ENDSWITH'' endsWithStr [''string''] qb"

definition contains :: "jsval \<Rightarrow> QueryBuilder \<Rightarrow> unit outcome" where
  "contains containesStr qb = addCondition ''LIKE'' containesStr [''string''] qb"

definition doesNotContain :: "jsval \<Rightarrow> QueryBuilder \<Rightarrow> unit outcome" where
  "doesNotContain notContainesStr qb = addCondition ''NOTLIKE'' notContainesStr [''string''] qb"

definition isEmpty :: "QueryBuilder \<Rightarrow> unit outcome" where
  "isEmpty qb = addCondition ''ISEMPTY'' (JStr '''') [''string'', ''number''] qb"

definition isNotEmpty :: "QueryBuilder \<Rightarrow> unit outcome" where
  "isNotEmpty qb = addCondition ''ISNOTEMPTY'' (JStr '''') [''string'', ''number''] qb"

definition equals :: "jsval \<Rightarrow> QueryBuilder \<Rightarrow> unit outcome" where
  "equals data qb =
     (if typeof_js data = ''string'' \<or> typeof_js data = ''number'' then
        addCondition ''='' data [''string'', ''number''] qb
      else if isArray data then
        addCondition ''IN'' data [''object''] qb
      else throw (QueryTypeException
             (''Expected string or list type, found: '' @ typeof_js data)) qb)"

definition notEquals :: "jsval \<Rightarrow> QueryBuilder \<Rightarrow> unit outcome" where
  "notEquals data qb =
     (if typeof_js data = ''string'' \<or> typeof_js data = ''number'' then
        addCondition ''!='' data [''string'', ''number''] qb
      else if isArray data then
        addCondition ''NOT IN'' data [''object''] qb
      else throw (QueryTypeException
             (''Expected string or list type, found: '' @ typeof_js data)) qb)"

text \<open>
  \<^verbatim>\<open>_formatDateTime\<close> and \<^verbatim>\<open>_getDateTimeInUTC\<close>. A value that is neither a moment
  nor a Date has no method \<^verbatim>\<open>toUTCString\<close>.
\<close>

definition formatDateTime :: "Moment \<Rightarrow> string" where
  "formatDateTime momentDate = format_YYYY_MM_DD_hh_mm_ss momentDate"

fun getDateTimeInUTC :: "jsval \<Rightarrow> exn + string" where
  "getDateTimeInUTC (JMoment m) = Inr (formatDateTime m)"
| "getDateTimeInUTC (JDate d) =
     Inr (formatDateTime (moment (new_Date (localOffset d) (substr (toUTCString d) 0 25))))"
| "getDateTimeInUTC v = Inl (TypeError ''dateTime.toUTCString is not a function'')"

text \<open>\<^verbatim>\<open>_addComparisonCondition\<close>\<close>

definition addComparisonCondition :: "jsval \<Rightarrow> string \<Rightarrow> QueryBuilder \<Rightarrow> unit outcome" where
  "addComparisonCondition valueToCompare operator qb =
     (if instanceof_Date valueToCompare \<or> instanceof_moment valueToCompare then
        (case getDateTimeInUTC valueToCompare of
           Inl e \<Rightarrow> throw e qb
         | Inr s \<Rightarrow> addCondition operator (JStr s) [''number'', ''string''] qb)
      else if \<not> (typeof_js valueToCompare = ''number'' \<or> typeof_js valueToCompare = ''string'') then
        throw (QueryTypeException
          (''Expected string/Date/number type, found: '' @ typeof_js valueToCompare)) qb
      else addCondition operator valueToCompare [''number'', ''string''] qb)"

definition greaterThan :: "jsval \<Rightarrow> QueryBuilder \<Rightarrow> unit outcome" where
  "greaterThan greaterThanValue qb = addComparisonCondition greaterThanValue ''>'' qb"

definition greaterThanOrIs :: "jsval \<Rightarrow> QueryBuilder \<Rightarrow> unit outcome" where
  "greaterThanOrIs greaterThanOrIsValue qb = addComparisonCondition greaterThanOrIsValue ''>='' qb"

definition lessThan :: "jsval \<Rightarrow> QueryBuilder \<Rightarrow> unit outcome" where
  "lessThan lessThanValue qb = addComparisonCondition lessThanValue ''<'' qb"

definition lessThanOrIs :: "jsval \<Rightarrow> QueryBuilder \<Rightarrow> unit outcome" where
  "lessThanOrIs lessThanOrIsValue qb = addComparisonCondition lessThanOrIsValue ''<='' qb"

text \<open>
  \<^verbatim>\<open>between\<close>. The message of its last branch ends in \<^verbatim>\<open>typeof data\<close>, and the
  method binds no \<^verbatim>\<open>data\<close>: the type of a name that is not bound is
  \<^verbatim>\<open>undefined\<close>.
\<close>

definition between :: "jsval \<Rightarrow> jsval \<Rightarrow> QueryBuilder \<Rightarrow> unit outcome" where
  "between startValue endValue qb =
     (if (typeof_js startValue = ''number'' \<and> typeof_js endValue = ''number'')
         \<or> (typeof_js startValue = ''string'' \<and> typeof_js endValue = ''string'') then
        addCondition ''BETWEEN'' (JStr (ToString startValue @ ''@'' @ ToString endValue))
          [''string''] qb
      else if (instanceof_Date startValue \<or> instanceof_moment startValue)
              \<and> (instanceof_Date endValue \<or> instanceof_moment endValue) then
        (case getDateTimeInUTC startValue of
           Inl e \<Rightarrow> throw e qb
         | Inr s \<Rightarrow>
            (case getDateTimeInUTC endValue of
               Inl e \<Rightarrow> throw e qb
             | Inr t \<Rightarrow> addCondition ''BETWEEN'' (JStr (s @ ''@'' @ t)) [''string''] qb))
      else throw (QueryTypeException
             (''Expected string/date/number type, found: '' @ ''undefined'')) qb)"

definition isAnything :: "QueryBuilder \<Rightarrow> unit outcome" where
  "isAnything qb = addCondition ''ANYTHING'' (JStr '''') [''string'', ''number''] qb"

definition isOneOf :: "jsval \<Rightarrow> QueryBuilder \<Rightarrow> unit outcome" where
  "isOneOf data qb =
     (case data of
        JArr xs \<Rightarrow> addCondition ''IN'' (JStr (join_comma xs)) [''string''] qb
      | _ \<Rightarrow> throw (QueryTypeException (''Expected array type, found: '' @ typeof_js data)) qb)"

definition isEmptyString :: "QueryBuilder \<Rightarrow> unit outcome" where
  "isEmptyString qb = addCondition ''EMPTYSTRING'' (JStr '''') [''string''] qb"

definition addLogicalOperator :: "string \<Rightarrow> QueryBuilder \<Rightarrow> unit outcome" where
  "addLogicalOperator operator qb = query_push operator qb"

definition and_op :: "QueryBuilder \<Rightarrow> unit outcome" where
  "and_op qb = addLogicalOperator ''^'' qb"

definition or_op :: "QueryBuilder \<Rightarrow> unit outcome" where
  "or_op qb = addLogicalOperator ''^OR'' qb"

definition NQ :: "QueryBuilder \<Rightarrow> unit outcome" where
  "NQ qb = addLogicalOperator ''^NQ'' qb"

definition build :: "QueryBuilder \<Rightarrow> string outcome" where
  "build qb =
     (if length (query qb) = 0 then
        throw (QueryEmptyException ''Atleast one condition is required in query.'') qb
      else (Inr (Array_join '''' (query qb)), qb))"

subsection \<open>Calls\<close>

text \<open>
  One call of a public method, with its arguments, and what it returns: \<^verbatim>\<open>this\<close> or
  the string that \<^verbatim>\<open>build\<close> made.
\<close>

datatype call =
    Field string
  | OrderDescending
  | OrderAscending
  | StartsWith jsval
  | EndsWith jsval
  | Contains jsval
  | DoesNotContain jsval
  | IsEmpty
  | IsNotEmpty
  | Equals jsval
  | NotEquals jsval
  | GreaterThan jsval
  | GreaterThanOrIs jsval
  | LessThan jsval
  | LessThanOrIs jsval
  | Between jsval jsval
  | IsAnything
  | IsOneOf jsval
  | IsEmptyString
  | And
  | Or
  | NewQuery
  | Build

datatype returned = This | Built string

definition chained :: "unit outcome \<Rightarrow> returned outcome" where
  "chained r = (case fst r of Inl e \<Rightarrow> Inl e | Inr u \<Rightarrow> Inr This, snd r)"

definition built :: "string outcome \<Rightarrow> returned outcome" where
  "built r = (case fst r of Inl e \<Rightarrow> Inl e | Inr s \<Rightarrow> Inr (Built s), snd r)"

fun invoke :: "call \<Rightarrow> QueryBuilder \<Rightarrow> returned outcome" where
  "invoke (Field f) qb = chained (field f qb)"
| "invoke OrderDescending qb = chained (orderDescending qb)"
| "invoke OrderAscending qb = chained (orderAscending qb)"
| "invoke (StartsWith v) qb = chained (startsWith v qb)"
| "invoke (EndsWith v) qb = chained (endsWith v qb)"
| "invoke (Contains v) qb = chained (contains v qb)"
| "invoke (DoesNotContain v) qb = chained (doesNotContain v qb)"
| "invoke IsEmpty qb = chained (isEmpty qb)"
| "invoke IsNotEmpty qb = chained (isNotEmpty qb)"
| "invoke (Equals v) qb = chained (equals v qb)"
| "invoke (NotEquals v) qb = chained (notEquals v qb)"
| "invoke (GreaterThan v) qb = chained (greaterThan v qb)"
| "invoke (GreaterThanOrIs v) qb = chained (greaterThanOrIs v qb)"
| "invoke (LessThan v) qb = chained (lessThan v qb)"
| "invoke (LessThanOrIs v) qb = chained (lessThanOrIs v qb)"
| "invoke (Between a b) qb = chained (between a b qb)"
| "invoke IsAnything qb = chained (isAnything qb)"
| "invoke (IsOneOf v) qb = chained (isOneOf v qb)"
| "invoke IsEmptyString qb = chained (isEmptyString qb)"
| "invoke And qb = chained (and_op qb)"
| "invoke Or qb = chained (or_op qb)"
| "invoke NewQuery qb = chained (NQ qb)"
| "invoke Build qb = built (build qb)"

text \<open>
  The builder after a sequence of calls made one after the other, where the caller
  catches what a call throws and goes on with the same builder.
\<close>

definition after :: "call list \<Rightarrow> QueryBuilder \<Rightarrow> QueryBuilder" where
  "after cs qb = fold (\<lambda>c b. snd (invoke c b)) cs qb"

text \<open>
  A chained expression \<^verbatim>\<open>b.m1(..).m2(..)\<close>: the calls run in order, the first
  exception ends the chain, and the value is that of the last call.
\<close>

fun chain :: "call list \<Rightarrow> QueryBuilder \<Rightarrow> returned outcome" where
  "chain [] qb = (Inr This, qb)"
| "chain [c] qb = invoke c qb"
| "chain (c # c' # cs) qb =
     (case invoke c qb of
        (Inl e, qb') \<Rightarrow> (Inl e, qb')
      | (Inr r, qb') \<Rightarrow> chain (c' # cs) qb')"

subsection \<open>Kinds of calls\<close>

text \<open>
  The condition methods are the calls that end in \<^verbatim>\<open>_addCondition\<close>. Ten of them
  look at the type of their operand themselves before they reach it; \<open>dispatch_accepts\<close>
  says when that first look lets the operand through.
\<close>

fun is_Field :: "call \<Rightarrow> bool" where
  "is_Field (Field f) = True"
| "is_Field c = False"

fun is_condition :: "call \<Rightarrow> bool" where
  "is_condition (Field f) = False"
| "is_condition OrderDescending = False"
| "is_condition OrderAscending = False"
| "is_condition And = False"
| "is_condition Or = False"
| "is_condition NewQuery = False"
| "is_condition Build = False"
| "is_condition c = True"

definition scalar :: "jsval \<Rightarrow> bool" where
  "scalar v \<longleftrightarrow> typeof_js v = ''string'' \<or> typeof_js v = ''number''"

definition datelike :: "jsval \<Rightarrow> bool" where
  "datelike v \<longleftrightarrow> instanceof_Date v \<or> instanceof_moment v"

fun dispatch_accepts :: "call \<Rightarrow> bool" where
  "dispatch_accepts (Equals v) = (scalar v \<or> isArray v)"
| "dispatch_accepts (NotEquals v) = (scalar v \<or> isArray v)"
| "dispatch_accepts (IsOneOf v) = isArray v"
| "dispatch_accepts (GreaterThan v) = (datelike v \<or> scalar v)"
| "dispatch_accepts (GreaterThanOrIs v) = (datelike v \<or> scalar v)"
| "dispatch_accepts (LessThan v) = (datelike v \<or> scalar v)"
| "dispatch_accepts (LessThanOrIs v) = (datelike v \<or> scalar v)"
| "dispatch_accepts (Between a b) =
     (typeof_js a = ''number'' \<and> typeof_js b = ''number''
      \<or> typeof_js a = ''string'' \<and> typeof_js b = ''string''
      \<or> datelike a \<and> datelike b)"
| "dispatch_accepts c = True"

section \<open>Properties of the builder\<close>

subsection \<open>Auxiliary facts\<close>

lemma Array_join_empty: "Array_join [] xs = concat xs"
  by (induction "[] :: string" xs rule: Array_join.induct) simp_all

lemma ToString_JArr: "ToString (JArr xs) = join_comma xs"
  by (simp add: join_comma_def)

lemma fst_chained [simp]: "fst (chained r) = Inl e \<longleftrightarrow> fst r = Inl e"
  by (simp add: chained_def split: sum.splits)

lemma snd_chained [simp]: "snd (chained r) = snd r"
  by (simp add: chained_def)

lemma fst_built [simp]: "fst (built r) = Inl e \<longleftrightarrow> fst r = Inl e"
  by (simp add: built_def split: sum.splits)

lemma snd_built [simp]: "snd (built r) = snd r"
  by (simp add: built_def)

lemma addCondition_no_field:
  "currentField qb = [] \<Longrightarrow>
   addCondition operator operand types qb =
     (Inl (QueryMissingFieldException ''Conditions requires a field.''), qb)"
  by (simp add: addCondition_def throw_def)

lemma addCondition_ok:
  "currentField qb \<noteq> [] \<Longrightarrow> typeof_js operand \<in> set types \<Longrightarrow>
   addCondition operator operand types qb =
     (Inr (), qb\<lparr>query := query qb @ [currentField qb @ operator @ ToString operand]\<rparr>)"
  by (simp add: addCondition_def query_push_def)

lemma addCondition_error_state:
  "fst (addCondition operator operand types qb) = Inl e \<Longrightarrow>
   snd (addCondition operator operand types qb) = qb"
  by (simp add: addCondition_def throw_def query_push_def split: if_splits)

lemma addCondition_prefix:
  "prefix (query qb) (query (snd (addCondition operator operand types qb)))"
  by (simp add: addCondition_def throw_def query_push_def)

lemma getDateTimeInUTC_datelike:
  "instanceof_Date v \<or> instanceof_moment v \<Longrightarrow> \<exists>s. getDateTimeInUTC v = Inr s"
  by (cases v) simp_all

lemma between_error_state: "fst (between a b qb) = Inl e \<Longrightarrow> snd (between a b qb) = qb"
  by (auto simp: between_def throw_def dest: addCondition_error_state split: if_splits sum.splits)

lemma comparison_error_state:
  "fst (addComparisonCondition v operator qb) = Inl e \<Longrightarrow>
   snd (addComparisonCondition v operator qb) = qb"
  by (auto simp: addComparisonCondition_def throw_def dest: addCondition_error_state
      split: if_splits sum.splits)

lemma invoke_error_state: "fst (invoke c qb) = Inl e \<Longrightarrow> snd (invoke c qb) = qb"
  by (cases c)
    (auto simp: field_def orderDescending_def orderAscending_def startsWith_def endsWith_def
      contains_def doesNotContain_def isEmpty_def isNotEmpty_def equals_def notEquals_def
      greaterThan_def greaterThanOrIs_def lessThan_def lessThanOrIs_def isAnything_def
      isOneOf_def isEmptyString_def and_op_def or_op_def NQ_def addLogicalOperator_def
      build_def throw_def query_push_def
      dest: addCondition_error_state between_error_state comparison_error_state
      split: if_splits jsval.splits)

lemma between_prefix: "prefix (query qb) (query (snd (between a b qb)))"
  by (auto simp: between_def throw_def addCondition_prefix split: sum.splits)

lemma comparison_prefix:
  "prefix (query qb) (query (snd (addComparisonCondition v operator qb)))"
  by (auto simp: addComparisonCondition_def throw_def addCondition_prefix split: sum.splits)

lemma invoke_prefix: "prefix (query qb) (query (snd (invoke c qb)))"
  by (cases c)
    (auto simp: field_def orderDescending_def orderAscending_def startsWith_def endsWith_def
      contains_def doesNotContain_def isEmpty_def isNotEmpty_def equals_def notEquals_def
      greaterThan_def greaterThanOrIs_def lessThan_def lessThanOrIs_def isAnything_def
      isOneOf_def isEmptyString_def and_op_def or_op_def NQ_def addLogicalOperator_def
      build_def throw_def query_push_def addCondition_prefix between_prefix comparison_prefix
      split: jsval.splits)

lemma after_prefix: "prefix (query qb) (query (after cs qb))"
proof (induction cs arbitrary: qb)
  case Nil
  show ?case by (simp add: after_def)
next
  case (Cons c cs)
  have "prefix (query qb) (query (snd (invoke c qb)))" by (rule invoke_prefix)
  moreover have "prefix (query (snd (invoke c qb))) (query (after cs (snd (invoke c qb))))"
    by (rule Cons.IH)
  ultimately show ?case by (simp add: after_def)
qed

lemma addCondition_currentField:
  "currentField (snd (addCondition operator operand types qb)) = currentField qb"
  by (simp add: addCondition_def throw_def query_push_def)

lemma invoke_currentField:
  "\<not> is_Field c \<Longrightarrow> currentField (snd (invoke c qb)) = currentField qb"
  by (cases c)
    (auto simp: orderDescending_def orderAscending_def startsWith_def endsWith_def
      contains_def doesNotContain_def isEmpty_def isNotEmpty_def equals_def notEquals_def
      greaterThan_def greaterThanOrIs_def lessThan_def lessThanOrIs_def isAnything_def
      isOneOf_def isEmptyString_def and_op_def or_op_def NQ_def addLogicalOperator_def
      build_def throw_def query_push_def addCondition_currentField between_def
      addComparisonCondition_def
      split: jsval.splits sum.splits)

lemma after_currentField:
  "\<forall>c\<in>set cs. \<not> is_Field c \<Longrightarrow> currentField (after cs qb) = currentField qb"
  by (induction cs arbitrary: qb) (simp_all add: after_def invoke_currentField)

text \<open>The model on the examples of the interface: numbers, dates and chained calls.\<close>

lemma Number_toString_examples:
  "Number_toString 1 = ''1''" "Number_toString 2 = ''2''" "Number_toString 3 = ''3''"
  "Number_toString 5 = ''5''" "Number_toString 6 = ''6''" "Number_toString 42 = ''42''"
  by (simp_all add: Number_toString_def digits.simps)

lemma getDateTimeInUTC_examples:
  "getDateTimeInUTC (JDate (Date (Some 1577865600000) 120)) = Inr ''2020-01-01 08:00:00''"
  "getDateTimeInUTC (JMoment (Moment (Some 1577883600000) 0)) = Inr ''2020-01-01 01:00:00''"
  by code_simp+

lemma chain_examples:
  "chain [Field ''priority'', Equals (JNum 1), And, Field ''state'', NotEquals (JNum 6), Build]
     constructor
   = (Inr (Built ''priority=1^state!=6''),
      \<lparr>query = [''priority=1'', ''^'', ''state!=6''], currentField = ''state''\<rparr>)"
  "chain [Field ''name'', OrderDescending, Build] constructor
   = (Inr (Built ''ORDERBYDESCname''), \<lparr>query = [''ORDERBYDESCname''], currentField = ''name''\<rparr>)"
  "chain [Build] constructor
   = (Inl (QueryEmptyException ''Atleast one condition is required in query.''), constructor)"
  by code_simp+

subsection \<open>Building the query\<close>

text \<open>
  Claim C1. \<^verbatim>\<open>build()\<close> fails with the empty-query exception exactly when the token
  sequence is empty; otherwise it returns the tokens concatenated in their order, with
  nothing put between them. Calls of \<^verbatim>\<open>field\<close> append no token: on a new builder, after
  any number of them, \<^verbatim>\<open>build()\<close> still fails.
\<close>

theorem build_empty_or_concat:
  "(fst (build qb) = Inl (QueryEmptyException ''Atleast one condition is required in query.'')
      \<longleftrightarrow> query qb = [])
   \<and> (query qb \<noteq> [] \<longrightarrow> fst (build qb) = Inr (concat (query qb)))
   \<and> ((\<forall>c\<in>set cs. is_Field c) \<longrightarrow>
        fst (build (after cs constructor))
          = Inl (QueryEmptyException ''Atleast one condition is required in query.''))"
proof -
  have "(\<forall>c\<in>set cs. is_Field c) \<Longrightarrow> query (after cs b) = query b" for b
  proof (induction cs arbitrary: b)
    case Nil
    show ?case by (simp add: after_def)
  next
    case (Cons c cs)
    from Cons.prems obtain f where "c = Field f" by (cases c) simp_all
    with Cons show ?case by (simp add: after_def field_def)
  qed
  then show ?thesis
    by (simp add: build_def throw_def Array_join_empty constructor_def)
qed

theorem build_empty_or_concat_witness:
  "fst (build \<lparr>query = [''priority=1'', ''^'', ''state!=6''], currentField = ''state''\<rparr>)
     = Inr ''priority=1^state!=6''
   \<and> fst (build (after [Field ''name'', Field ''state''] constructor))
     = Inl (QueryEmptyException ''Atleast one condition is required in query.'')"
  using build_empty_or_concat
    [of "\<lparr>query = [''priority=1'', ''^'', ''state!=6''], currentField = ''state''\<rparr>"
        "[Field ''name'', Field ''state'']"]
  by simp

subsection \<open>Equality and membership\<close>

text \<open>
  Claim C2. With a current field set, \<^verbatim>\<open>equals\<close> and \<^verbatim>\<open>notEquals\<close> append the token
  \<^verbatim>\<open>field=operand\<close> and \<^verbatim>\<open>field!=operand\<close> for a string or a number, and the token
  \<^verbatim>\<open>fieldIN...\<close> and \<^verbatim>\<open>fieldNOT IN...\<close> with the elements joined by commas for an
  array. For any other value they throw the type exception whose message ends in the
  \<^verbatim>\<open>typeof\<close> of the value, whether a field is set or not.
\<close>

theorem equals_notEquals_dispatch:
  "(currentField qb \<noteq> [] \<and> (typeof_js data = ''string'' \<or> typeof_js data = ''number'') \<longrightarrow>
      equals data qb
        = (Inr (), qb\<lparr>query := query qb @ [currentField qb @ ''='' @ ToString data]\<rparr>)
      \<and> notEquals data qb
        = (Inr (), qb\<lparr>query := query qb @ [currentField qb @ ''!='' @ ToString data]\<rparr>))
   \<and> (currentField qb \<noteq> [] \<and> data = JArr xs \<longrightarrow>
      equals data qb
        = (Inr (), qb\<lparr>query := query qb @ [currentField qb @ ''IN'' @ join_comma xs]\<rparr>)
      \<and> notEquals data qb
        = (Inr (), qb\<lparr>query := query qb @ [currentField qb @ ''NOT IN'' @ join_comma xs]\<rparr>))
   \<and> (typeof_js data \<noteq> ''string'' \<and> typeof_js data \<noteq> ''number'' \<and> \<not> isArray data \<longrightarrow>
      equals data qb
        = (Inl (QueryTypeException (''Expected string or list type, found: '' @ typeof_js data)), qb)
      \<and> notEquals data qb
        = (Inl (QueryTypeException (''Expected string or list type, found: '' @ typeof_js data)), qb))"
  by (auto simp: equals_def notEquals_def addCondition_ok throw_def join_comma_def)

theorem equals_notEquals_dispatch_witness:
  "equals (JStr ''x'') \<lparr>query = [], currentField = ''field''\<rparr>
     = (Inr (), \<lparr>query = [''field=x''], currentField = ''field''\<rparr>)
   \<and> equals (JNum 42) \<lparr>query = [], currentField = ''field''\<rparr>
     = (Inr (), \<lparr>query = [''field=42''], currentField = ''field''\<rparr>)
   \<and> notEquals (JNum 42) \<lparr>query = [], currentField = ''field''\<rparr>
     = (Inr (), \<lparr>query = [''field!=42''], currentField = ''field''\<rparr>)
   \<and> equals (JArr [JNum 1, JNum 2, JNum 3]) \<lparr>query = [], currentField = ''field''\<rparr>
     = (Inr (), \<lparr>query = [''fieldIN1,2,3''], currentField = ''field''\<rparr>)
   \<and> notEquals (JArr [JNum 1, JNum 2, JNum 3]) \<lparr>query = [], currentField = ''field''\<rparr>
     = (Inr (), \<lparr>query = [''fieldNOT IN1,2,3''], currentField = ''field''\<rparr>)
   \<and> equals JObject \<lparr>query = [], currentField = ''field''\<rparr>
     = (Inl (QueryTypeException ''Expected string or list type, found: object''),
        \<lparr>query = [], currentField = ''field''\<rparr>)
   \<and> notEquals JObject \<lparr>query = [], currentField = ''field''\<rparr>
     = (Inl (QueryTypeException ''Expected string or list type, found: object''),
        \<lparr>query = [], currentField = ''field''\<rparr>)"
  using
    equals_notEquals_dispatch
      [where qb = "\<lparr>query = [], currentField = ''field''\<rparr>" and data = "JStr ''x''"]
    equals_notEquals_dispatch
      [where qb = "\<lparr>query = [], currentField = ''field''\<rparr>" and data = "JNum 42"]
    equals_notEquals_dispatch
      [where qb = "\<lparr>query = [], currentField = ''field''\<rparr>"
         and data = "JArr [JNum 1, JNum 2, JNum 3]"
         and xs = "[JNum 1, JNum 2, JNum 3]"]
    equals_notEquals_dispatch
      [where qb = "\<lparr>query = [], currentField = ''field''\<rparr>" and data = JObject]
  by (simp add: join_comma_def Number_toString_examples)

subsection \<open>Ranges\<close>

text \<open>
  What \<^verbatim>\<open>between(start, end)\<close> does with a current field set: for two numbers or two
  strings it appends the operand \<^verbatim>\<open>start@end\<close>, and for two dates (each a Date or a
  moment) the two strings that \<^verbatim>\<open>_getDateTimeInUTC\<close> makes of them, joined by \<^verbatim>\<open>@\<close>.
  For every other pair it throws the type exception, with or without a field.
\<close>

lemma between_operand:
  "(currentField qb \<noteq> []
      \<and> (typeof_js a = ''number'' \<and> typeof_js b = ''number''
          \<or> typeof_js a = ''string'' \<and> typeof_js b = ''string'') \<longrightarrow>
      between a b qb
        = (Inr (), qb\<lparr>query := query qb
             @ [currentField qb @ ''BETWEEN'' @ ToString a @ ''@'' @ ToString b]\<rparr>))
   \<and> (currentField qb \<noteq> [] \<and> datelike a \<and> datelike b \<longrightarrow>
      (\<exists>s t. getDateTimeInUTC a = Inr s \<and> getDateTimeInUTC b = Inr t
         \<and> between a b qb
             = (Inr (), qb\<lparr>query := query qb
                  @ [currentField qb @ ''BETWEEN'' @ s @ ''@'' @ t]\<rparr>)))
   \<and> (\<not> dispatch_accepts (Between a b) \<longrightarrow>
      (\<exists>msg. between a b qb = (Inl (QueryTypeException msg), qb)))"
proof (intro conjI impI)
  assume "currentField qb \<noteq> []
      \<and> (typeof_js a = ''number'' \<and> typeof_js b = ''number''
          \<or> typeof_js a = ''string'' \<and> typeof_js b = ''string'')"
  then show "between a b qb
        = (Inr (), qb\<lparr>query := query qb
             @ [currentField qb @ ''BETWEEN'' @ ToString a @ ''@'' @ ToString b]\<rparr>)"
    by (auto simp: between_def addCondition_ok)
next
  assume h: "currentField qb \<noteq> [] \<and> datelike a \<and> datelike b"
  then obtain s t where st: "getDateTimeInUTC a = Inr s" "getDateTimeInUTC b = Inr t"
    using getDateTimeInUTC_datelike unfolding datelike_def by blast
  from h have "typeof_js a = ''object''"
    by (cases a) (simp_all add: datelike_def)
  moreover from h have "typeof_js b = ''object''"
    by (cases b) (simp_all add: datelike_def)
  ultimately have ty: "typeof_js a = ''object'' \<and> typeof_js b = ''object''" by simp
  from ty h st have "between a b qb
             = (Inr (), qb\<lparr>query := query qb
                  @ [currentField qb @ ''BETWEEN'' @ s @ ''@'' @ t]\<rparr>)"
    by (simp add: between_def datelike_def addCondition_ok)
  with st show "\<exists>s t. getDateTimeInUTC a = Inr s \<and> getDateTimeInUTC b = Inr t
         \<and> between a b qb
             = (Inr (), qb\<lparr>query := query qb
                  @ [currentField qb @ ''BETWEEN'' @ s @ ''@'' @ t]\<rparr>)"
    by blast
next
  assume "\<not> dispatch_accepts (Between a b)"
  then show "\<exists>msg. between a b qb = (Inl (QueryTypeException msg), qb)"
    by (auto simp: between_def throw_def datelike_def)
qed

lemma between_operand_examples:
  "between (JNum 1) (JNum 5) \<lparr>query = [], currentField = ''f''\<rparr>
     = (Inr (), \<lparr>query = [''fBETWEEN1@5''], currentField = ''f''\<rparr>)
   \<and> between (JStr ''a'') (JStr ''z'') \<lparr>query = [], currentField = ''f''\<rparr>
     = (Inr (), \<lparr>query = [''fBETWEENa@z''], currentField = ''f''\<rparr>)
   \<and> between (JDate (Date (Some 1577865600000) 120)) (JMoment (Moment (Some 1577883600000) 0))
       \<lparr>query = [], currentField = ''f''\<rparr>
     = (Inr (), \<lparr>query = [''fBETWEEN2020-01-01 08:00:00@2020-01-01 01:00:00''],
                 currentField = ''f''\<rparr>)
   \<and> between (JNum 1) (JStr ''x'') \<lparr>query = [], currentField = ''f''\<rparr>
     = (Inl (QueryTypeException ''Expected string/date/number type, found: undefined''),
        \<lparr>query = [], currentField = ''f''\<rparr>)"
  using
    between_operand
      [where qb = "\<lparr>query = [], currentField = ''f''\<rparr>" and a = "JNum 1" and b = "JNum 5"]
    between_operand
      [where qb = "\<lparr>query = [], currentField = ''f''\<rparr>" and a = "JStr ''a''" and b = "JStr ''z''"]
    between_operand
      [where qb = "\<lparr>query = [], currentField = ''f''\<rparr>"
         and a = "JDate (Date (Some 1577865600000) 120)"
         and b = "JMoment (Moment (Some 1577883600000) 0)"]
    between_operand
      [where qb = "\<lparr>query = [], currentField = ''f''\<rparr>" and a = "JNum 1" and b = "JStr ''x''"]
  by (simp add: datelike_def Number_toString_examples getDateTimeInUTC_examples
      between_def throw_def del: getDateTimeInUTC.simps)

text \<open>
  Claim C3. The operand of \<^verbatim>\<open>between\<close> for a pair of dates is to be the pair of their
  UTC readings. For two moments it is not: on a host two hours east of Greenwich, the
  moments of 08:00 and 09:00 UTC on 2020-01-01 give the operand
  \<^verbatim>\<open>2020-01-01 10:00:00@2020-01-01 11:00:00\<close>, since \<^verbatim>\<open>_getDateTimeInUTC\<close> formats a
  moment without converting it. The other parts of the claim are the lemma above.
\<close>

theorem between_moments_not_converted:
  "between (JMoment (moment (Date (Some 1577865600000) 120)))
       (JMoment (moment (Date (Some 1577869200000) 120)))
       \<lparr>query = [], currentField = ''opened_at''\<rparr>
     = (Inr (), \<lparr>query = [''opened_atBETWEEN2020-01-01 10:00:00@2020-01-01 11:00:00''],
                 currentField = ''opened_at''\<rparr>)
   \<and> toUTCString (Date (Some 1577865600000) 120) = ''Wed, 01 Jan 2020 08:00:00 GMT''
   \<and> toUTCString (Date (Some 1577869200000) 120) = ''Wed, 01 Jan 2020 09:00:00 GMT''"
  by code_simp

lemma comparison_no_field:
  "currentField qb = [] \<Longrightarrow> datelike v \<or> scalar v \<Longrightarrow>
   addComparisonCondition v operator qb
     = (Inl (QueryMissingFieldException ''Conditions requires a field.''), qb)"
  by (cases v)
    (simp_all add: addComparisonCondition_def addCondition_no_field datelike_def scalar_def)

lemma between_no_field:
  "currentField qb = [] \<Longrightarrow> dispatch_accepts (Between a b) \<Longrightarrow>
   between a b qb = (Inl (QueryMissingFieldException ''Conditions requires a field.''), qb)"
  by (cases a; cases b)
    (simp_all add: between_def addCondition_no_field datelike_def)

lemma no_field_accepted:
  "currentField qb = [] \<Longrightarrow> is_condition c \<Longrightarrow> dispatch_accepts c \<Longrightarrow>
   fst (invoke c qb) = Inl (QueryMissingFieldException ''Conditions requires a field.'')"
  by (cases c)
    (auto simp: startsWith_def endsWith_def contains_def doesNotContain_def isEmpty_def
      isNotEmpty_def equals_def notEquals_def greaterThan_def greaterThanOrIs_def lessThan_def
      lessThanOrIs_def isAnything_def isOneOf_def isEmptyString_def
      addCondition_no_field comparison_no_field between_no_field scalar_def
      split: jsval.splits)

lemma rejected_type_exception:
  "is_condition c \<Longrightarrow> \<not> dispatch_accepts c \<Longrightarrow>
   \<exists>msg. fst (invoke c qb) = Inl (QueryTypeException msg)"
  by (cases c)
    (auto simp: equals_def notEquals_def greaterThan_def greaterThanOrIs_def lessThan_def
      lessThanOrIs_def isOneOf_def between_def addComparisonCondition_def throw_def
      scalar_def datelike_def split: jsval.splits)

lemma type_exception_from_addCondition:
  "fst (addCondition operator operand [''string''] qb) = Inl (QueryTypeException msg) \<Longrightarrow>
   msg = ''Invalid type passed. Expected: string'' \<and> typeof_js operand \<noteq> ''string''"
  by (auto simp: addCondition_def throw_def query_push_def split: if_splits)

lemma no_type_exception_from_addCondition:
  "typeof_js operand \<in> set types \<Longrightarrow>
   fst (addCondition operator operand types qb) \<noteq> Inl (QueryTypeException msg)"
  by (auto simp: addCondition_def throw_def query_push_def split: if_splits)

lemma comparison_type_exception:
  "fst (addComparisonCondition v operator qb) = Inl (QueryTypeException msg) \<Longrightarrow>
   msg = ''Expected string/Date/number type, found: '' @ typeof_js v"
  by (cases v)
    (auto simp: addComparisonCondition_def throw_def no_type_exception_from_addCondition)

lemma equals_type_exception:
  "fst (equals v qb) = Inl (QueryTypeException msg) \<Longrightarrow>
   msg = ''Expected string or list type, found: '' @ typeof_js v"
  by (cases v) (auto simp: equals_def throw_def no_type_exception_from_addCondition)

lemma notEquals_type_exception:
  "fst (notEquals v qb) = Inl (QueryTypeException msg) \<Longrightarrow>
   msg = ''Expected string or list type, found: '' @ typeof_js v"
  by (cases v) (auto simp: notEquals_def throw_def no_type_exception_from_addCondition)

subsection \<open>Dates\<close>

text \<open>
  Claim C4. The comment of \<^verbatim>\<open>_getDateTimeInUTC\<close> promises the conversion of a Date or
  a moment to UTC. The branch for a Date does it. The branch for a moment formats the
  moment as it is, in the offset it displays in. On a host two hours east of Greenwich,
  the Date of 2020-01-01 08:00:00 UTC and the moment made of that Date give different
  strings, and that of the moment is not the UTC reading, which is what the same
  instant formats to at offset zero.
\<close>

theorem getDateTimeInUTC_moment_not_converted:
  "getDateTimeInUTC (JDate (Date (Some 1577865600000) 120)) = Inr ''2020-01-01 08:00:00''
   \<and> getDateTimeInUTC (JMoment (moment (Date (Some 1577865600000) 120)))
       = Inr ''2020-01-01 10:00:00''
   \<and> formatDateTime (Moment (Some 1577865600000) 0) = ''2020-01-01 08:00:00''"
  by code_simp

subsection \<open>The missing field\<close>

text \<open>
  Claim C5, as stated: every condition method called before any \<^verbatim>\<open>field()\<close> call
  fails with the missing-field exception. It fails for \<^verbatim>\<open>equals({})\<close> on a new
  builder: \<^verbatim>\<open>equals\<close> looks at the type of its operand before \<^verbatim>\<open>_addCondition\<close>
  looks at the field.
\<close>

theorem equals_before_field_counterexample:
  "fst (equals JObject constructor)
     = Inl (QueryTypeException ''Expected string or list type, found: object'')
   \<and> fst (equals JObject constructor)
     \<noteq> Inl (QueryMissingFieldException ''Conditions requires a field.'')"
  by (simp add: equals_def throw_def)

text \<open>
  Claim C5, amended. After any calls other than \<^verbatim>\<open>field\<close> on a new builder, a
  condition method fails: with the missing-field exception when its operand passes the
  method's own look at the type (for \<^verbatim>\<open>startsWith\<close>, \<^verbatim>\<open>endsWith\<close>, \<^verbatim>\<open>contains\<close>,
  \<^verbatim>\<open>doesNotContain\<close> and the methods without operand: always), and with the type
  exception otherwise.
\<close>

theorem condition_before_field:
  assumes "\<forall>c\<in>set cs. \<not> is_Field c" and "is_condition c'"
  shows "(dispatch_accepts c' \<longrightarrow>
            fst (invoke c' (after cs constructor))
              = Inl (QueryMissingFieldException ''Conditions requires a field.''))
         \<and> (\<not> dispatch_accepts c' \<longrightarrow>
            (\<exists>msg. fst (invoke c' (after cs constructor)) = Inl (QueryTypeException msg)))"
proof -
  from assms(1) have "currentField (after cs constructor) = []"
    by (simp add: after_currentField constructor_def)
  with assms(2) show ?thesis
    by (simp add: no_field_accepted rejected_type_exception)
qed

theorem condition_before_field_witness:
  "fst (invoke (StartsWith (JNum 5)) (after [And, OrderAscending] constructor))
     = Inl (QueryMissingFieldException ''Conditions requires a field.'')
   \<and> fst (invoke (IsOneOf (JStr ''x'')) (after [And, OrderAscending] constructor))
     = Inl (QueryTypeException ''Expected array type, found: string'')"
  using condition_before_field [of "[And, OrderAscending]" "StartsWith (JNum 5)"]
    condition_before_field [of "[And, OrderAscending]" "IsOneOf (JStr ''x'')"]
  by (simp add: isOneOf_def throw_def)

text \<open>
  Claim C9, as stated: after \<^verbatim>\<open>field("")\<close> every condition method still fails with the
  missing-field exception. It fails for \<^verbatim>\<open>between(1, "x")\<close>, which throws the type
  exception before the field is looked at.
\<close>

theorem between_after_empty_field_counterexample:
  "fst (between (JNum 1) (JStr ''x'') (snd (field '''' constructor)))
     = Inl (QueryTypeException ''Expected string/date/number type, found: undefined'')
   \<and> fst (between (JNum 1) (JStr ''x'') (snd (field '''' constructor)))
     \<noteq> Inl (QueryMissingFieldException ''Conditions requires a field.'')"
  by (simp add: between_def throw_def)

text \<open>
  Claim C9, amended. \<^verbatim>\<open>field("")\<close> leaves the builder without a current field, as the
  constructor does: after it, whatever the builder was before, every condition method
  whose operand passes the method's own look at the type fails with the missing-field
  exception.
\<close>

theorem condition_after_empty_field:
  assumes "is_condition c" and "dispatch_accepts c"
  shows "currentField (snd (field '''' qb)) = currentField constructor
         \<and> fst (invoke c (snd (field '''' qb)))
             = Inl (QueryMissingFieldException ''Conditions requires a field.'')"
proof -
  have "currentField (snd (field '''' qb)) = []" by (simp add: field_def)
  with assms show ?thesis by (simp add: no_field_accepted constructor_def)
qed

theorem condition_after_empty_field_witness:
  "fst (invoke (Equals (JNum 1))
         (snd (field '''' \<lparr>query = [''a=1'', ''^''], currentField = ''b''\<rparr>)))
     = Inl (QueryMissingFieldException ''Conditions requires a field.'')"
  using condition_after_empty_field
    [of "Equals (JNum 1)" "\<lparr>query = [''a=1'', ''^''], currentField = ''b''\<rparr>"]
  by (simp add: scalar_def)

subsection \<open>Messages of the type exception\<close>

text \<open>
  Claim C6, as stated: the message of every type exception names the expected types
  and the actual type of the operand. \<^verbatim>\<open>startsWith(5)\<close> throws a type exception whose
  message names the expected type alone.
\<close>

theorem startsWith_message_counterexample:
  "fst (startsWith (JNum 5) \<lparr>query = [], currentField = ''a''\<rparr>)
     = Inl (QueryTypeException ''Invalid type passed. Expected: string'')
   \<and> \<not> sublist (typeof_js (JNum 5)) ''Invalid type passed. Expected: string''"
  by code_simp

text \<open>
  Claim C6, amended. A type exception thrown by \<^verbatim>\<open>_addCondition\<close>, which
  \<^verbatim>\<open>startsWith\<close>, \<^verbatim>\<open>endsWith\<close>, \<^verbatim>\<open>contains\<close> and \<^verbatim>\<open>doesNotContain\<close> reach with an
  operand that is no string, has a message that names the expected type. A type
  exception thrown by \<^verbatim>\<open>equals\<close>, \<^verbatim>\<open>notEquals\<close>, \<^verbatim>\<open>isOneOf\<close> and the four comparisons
  has a message that names the expected types and ends in the \<^verbatim>\<open>typeof\<close> of the
  operand. No other method but \<^verbatim>\<open>between\<close> throws a type exception, and nothing is
  said of the message of \<^verbatim>\<open>between\<close>.
\<close>

theorem type_exception_message:
  assumes "fst (invoke c qb) = Inl (QueryTypeException msg)"
  shows "case c of
      StartsWith v \<Rightarrow> msg = ''Invalid type passed. Expected: string'' \<and> typeof_js v \<noteq> ''string''
    | EndsWith v \<Rightarrow> msg = ''Invalid type passed. Expected: string'' \<and> typeof_js v \<noteq> ''string''
    | Contains v \<Rightarrow> msg = ''Invalid type passed. Expected: string'' \<and> typeof_js v \<noteq> ''string''
    | DoesNotContain v \<Rightarrow>
        msg = ''Invalid type passed. Expected: string'' \<and> typeof_js v \<noteq> ''string''
    | Equals v \<Rightarrow> msg = ''Expected string or list type, found: '' @ typeof_js v
    | NotEquals v \<Rightarrow> msg = ''Expected string or list type, found: '' @ typeof_js v
    | IsOneOf v \<Rightarrow> msg = ''Expected array type, found: '' @ typeof_js v
    | GreaterThan v \<Rightarrow> msg = ''Expected string/Date/number type, found: '' @ typeof_js v
    | GreaterThanOrIs v \<Rightarrow> msg = ''Expected string/Date/number type, found: '' @ typeof_js v
    | LessThan v \<Rightarrow> msg = ''Expected string/Date/number type, found: '' @ typeof_js v
    | LessThanOrIs v \<Rightarrow> msg = ''Expected string/Date/number type, found: '' @ typeof_js v
    | Between a b \<Rightarrow> True
    | _ \<Rightarrow> False"
  using assms
  by (cases c)
    (auto simp: field_def orderDescending_def orderAscending_def startsWith_def endsWith_def
      contains_def doesNotContain_def isEmpty_def isNotEmpty_def
      greaterThan_def greaterThanOrIs_def lessThan_def lessThanOrIs_def isAnything_def
      isOneOf_def isEmptyString_def and_op_def or_op_def NQ_def addLogicalOperator_def
      build_def throw_def query_push_def no_type_exception_from_addCondition
      dest: type_exception_from_addCondition comparison_type_exception
        equals_type_exception notEquals_type_exception
      split: if_splits jsval.splits)

theorem type_exception_message_witness:
  "fst (invoke (Contains JNull) \<lparr>query = [], currentField = ''a''\<rparr>)
     = Inl (QueryTypeException ''Invalid type passed. Expected: string'')
   \<and> fst (invoke (LessThan (JBool True)) \<lparr>query = [], currentField = ''a''\<rparr>)
     = Inl (QueryTypeException ''Expected string/Date/number type, found: boolean'')
   \<and> typeof_js JNull \<noteq> ''string''
   \<and> ''Expected string/Date/number type, found: boolean''
       = ''Expected string/Date/number type, found: '' @ typeof_js (JBool True)"
  using
    type_exception_message [of "Contains JNull" "\<lparr>query = [], currentField = ''a''\<rparr>"
      "''Invalid type passed. Expected: string''"]
    type_exception_message [of "LessThan (JBool True)" "\<lparr>query = [], currentField = ''a''\<rparr>"
      "''Expected string/Date/number type, found: boolean''"]
  by (simp add: contains_def lessThan_def addCondition_def addComparisonCondition_def throw_def)

subsection \<open>Errors and the state of the builder\<close>

text \<open>
  Claim C7. A call that throws, whatever it throws, leaves the builder as it was: the
  token sequence and the current field after the call are those before it.
\<close>

theorem error_leaves_builder_unchanged:
  "fst (invoke c qb) = Inl e \<Longrightarrow> snd (invoke c qb) = qb"
  by (rule invoke_error_state)

theorem error_leaves_builder_unchanged_witness:
  "fst (invoke (StartsWith (JNum 5)) \<lparr>query = [''a=1'', ''^''], currentField = ''b''\<rparr>)
     = Inl (QueryTypeException ''Invalid type passed. Expected: string'')
   \<and> snd (invoke (StartsWith (JNum 5)) \<lparr>query = [''a=1'', ''^''], currentField = ''b''\<rparr>)
     = \<lparr>query = [''a=1'', ''^''], currentField = ''b''\<rparr>"
  using error_leaves_builder_unchanged
    [of "StartsWith (JNum 5)" "\<lparr>query = [''a=1'', ''^''], currentField = ''b''\<rparr>"
        "QueryTypeException ''Invalid type passed. Expected: string''"]
  by (simp add: startsWith_def addCondition_def throw_def)

text \<open>
  Claim C8. After every call, and so after every sequence of calls, the token sequence
  from before is a prefix of the one after. \<^verbatim>\<open>build()\<close> leaves the builder as it was,
  and a second \<^verbatim>\<open>build()\<close> right after the first gives what the first gave.
\<close>

theorem tokens_only_appended:
  "prefix (query qb) (query (snd (invoke c qb)))
   \<and> prefix (query qb) (query (after cs qb))
   \<and> snd (build qb) = qb
   \<and> build (snd (build qb)) = build qb"
  by (simp add: invoke_prefix after_prefix build_def throw_def)

theorem tokens_only_appended_witness:
  "prefix [''a=1''] (query (snd (invoke And \<lparr>query = [''a=1''], currentField = ''a''\<rparr>)))
   \<and> build (snd (build \<lparr>query = [''a=1''], currentField = ''a''\<rparr>))
       = (Inr ''a=1'', \<lparr>query = [''a=1''], currentField = ''a''\<rparr>)"
  using tokens_only_appended [of "\<lparr>query = [''a=1''], currentField = ''a''\<rparr>" And "[]"]
  by (simp add: build_def)

subsection \<open>The methods without operand\<close>

text \<open>
  Claim C10. \<^verbatim>\<open>isEmpty\<close>, \<^verbatim>\<open>isNotEmpty\<close>, \<^verbatim>\<open>isAnything\<close> and \<^verbatim>\<open>isEmptyString\<close> pass
  the empty string to \<^verbatim>\<open>_addCondition\<close>, and its type is among the types each of them
  allows. So each throws the missing-field exception when no field is set, appends
  its token otherwise, and never throws the type exception.
\<close>

theorem zero_argument_methods:
  "isEmpty qb =
     (if currentField qb = '''' then
        (Inl (QueryMissingFieldException ''Conditions requires a field.''), qb)
      else (Inr (), qb\<lparr>query := query qb @ [currentField qb @ ''ISEMPTY'']\<rparr>))
   \<and> isNotEmpty qb =
     (if currentField qb = '''' then
        (Inl (QueryMissingFieldException ''Conditions requires a field.''), qb)
      else (Inr (), qb\<lparr>query := query qb @ [currentField qb @ ''ISNOTEMPTY'']\<rparr>))
   \<and> isAnything qb =
     (if currentField qb = '''' then
        (Inl (QueryMissingFieldException ''Conditions requires a field.''), qb)
      else (Inr (), qb\<lparr>query := query qb @ [currentField qb @ ''ANYTHING'']\<rparr>))
   \<and> isEmptyString qb =
     (if currentField qb = '''' then
        (Inl (QueryMissingFieldException ''Conditions requires a field.''), qb)
      else (Inr (), qb\<lparr>query := query qb @ [currentField qb @ ''EMPTYSTRING'']\<rparr>))
   \<and> (c \<in> {IsEmpty, IsNotEmpty, IsAnything, IsEmptyString} \<longrightarrow>
        fst (invoke c qb) \<noteq> Inl (QueryTypeException msg)
        \<and> (fst (invoke c qb) = Inl e \<longrightarrow>
             e = QueryMissingFieldException ''Conditions requires a field.''))"
  by (auto simp: isEmpty_def isNotEmpty_def isAnything_def isEmptyString_def
      addCondition_no_field addCondition_ok)

theorem zero_argument_methods_witness:
  "isEmpty \<lparr>query = [], currentField = ''state''\<rparr>
     = (Inr (), \<lparr>query = [''stateISEMPTY''], currentField = ''state''\<rparr>)
   \<and> fst (invoke IsEmptyString constructor)
     = Inl (QueryMissingFieldException ''Conditions requires a field.'')"
  using zero_argument_methods [of "\<lparr>query = [], currentField = ''state''\<rparr>" IsEmpty]
    zero_argument_methods [of constructor IsEmptyString _
      "QueryMissingFieldException ''Conditions requires a field.''"]
  by (simp add: constructor_def isEmptyString_def addCondition_def throw_def)

end
